theory Spec2Isabelle
  imports Complex_Main
begin

section \<open>Python values and exceptions\<close>

text \<open>
  The chart helpers of \<^verbatim>\<open>grapher_admin/models.py\<close> work on the value that
  \<^verbatim>\<open>json.loads\<close> decodes from a chart's \<^verbatim>\<open>config\<close> text: a dict, a list, a
  str, an int, a float, a bool or None. A dict keeps its keys in insertion order, so it is
  an association list here. A float is a finite rational, NaN or an infinity; the code
  only ever passes it to \<^verbatim>\<open>int()\<close>. Strings are byte strings (ASCII).
\<close>

datatype pyfloat = Finite rat | NaN | Infinity bool

datatype json =
    JNull
  | JBool bool
  | JInt int
  | JFloat pyfloat
  | JString string
  | JArray "json list"
  | JObject "(string \<times> json) list"

text \<open>
  The exceptions the three operations can raise. \<open>JSONDecodeError\<close> is what
  \<^verbatim>\<open>json.loads\<close> raises on text that is not JSON (the specification calls it
  MalformedConfig). \<open>DoesNotExist\<close> and \<open>MultipleObjectsReturned\<close> belong to a model
  class, as in Django.
\<close>

datatype model = Chart | ChartSlugRedirect

datatype error =
    JSONDecodeError
  | KeyError
  | TypeError
  | ValueError
  | OverflowError
  | DoesNotExist model
  | MultipleObjectsReturned model

abbreviation MalformedConfig :: error where
  "MalformedConfig \<equiv> JSONDecodeError"

subsection \<open>int() on a string\<close>

text \<open>
  \<^verbatim>\<open>int(s)\<close> in base 10: surrounding whitespace (tab, line feed, vertical tab, form
  feed, carriage return, space) is stripped, one sign is allowed, and the digits may be
  grouped by single underscores. Anything else raises ValueError (\<open>None\<close> here).
  Python also accepts whitespace and decimal digits outside ASCII; such identifiers are
  outside the strings of this model.
\<close>

definition is_space :: "char \<Rightarrow> bool" where
  "is_space c = (let n = (of_char c :: nat) in (9 \<le> n \<and> n \<le> 13) \<or> n = 32)"

definition is_digit :: "char \<Rightarrow> bool" where
  "is_digit c = (let n = (of_char c :: nat) in 48 \<le> n \<and> n \<le> 57)"

definition digit_val :: "char \<Rightarrow> int" where
  "digit_val c = int (of_char c) - 48"

definition strip :: "string \<Rightarrow> string" where
  "strip s = rev (dropWhile is_space (rev (dropWhile is_space s)))"

text \<open>The flag says whether the previous character was a digit.\<close>

fun py_digits :: "bool \<Rightarrow> int \<Rightarrow> string \<Rightarrow> int option" where
  "py_digits prev acc [] = (if prev then Some acc else None)"
| "py_digits prev acc (c # cs) =
     (if is_digit c then py_digits True (10 * acc + digit_val c) cs
      else if c = CHR ''_'' \<and> prev then py_digits False acc cs
      else None)"

definition py_int_str :: "string \<Rightarrow> int option" where
  "py_int_str s =
     (case strip s of
        [] \<Rightarrow> None
      | c # cs \<Rightarrow>
          if c = CHR ''-'' then map_option uminus (py_digits False 0 cs)
          else if c = CHR ''+'' then py_digits False 0 cs
          else py_digits False 0 (c # cs))"

subsection \<open>int() on a decoded value\<close>

definition trunc_rat :: "rat \<Rightarrow> int" where
  "trunc_rat q = (if q < 0 then - \<lfloor>- q\<rfloor> else \<lfloor>q\<rfloor>)"

fun py_int :: "json \<Rightarrow> error + int" where
  "py_int (JInt n) = Inr n"
| "py_int (JBool b) = Inr (if b then 1 else 0)"
| "py_int (JFloat (Finite q)) = Inr (trunc_rat q)"
| "py_int (JFloat NaN) = Inl ValueError"
| "py_int (JFloat (Infinity _)) = Inl OverflowError"
| "py_int (JString s) = (case py_int_str s of None \<Rightarrow> Inl ValueError | Some n \<Rightarrow> Inr n)"
| "py_int JNull = Inl TypeError"
| "py_int (JArray _) = Inl TypeError"
| "py_int (JObject _) = Inl TypeError"

subsection \<open>Subscription, membership and iteration\<close>

text \<open>\<^verbatim>\<open>d[k]\<close> for a string key: only a dict can be read this way.\<close>

fun py_getitem :: "json \<Rightarrow> string \<Rightarrow> error + json" where
  "py_getitem (JObject kvs) k = (case map_of kvs k of None \<Rightarrow> Inl KeyError | Some v \<Rightarrow> Inr v)"
| "py_getitem _ k = Inl TypeError"

text \<open>
  \<^verbatim>\<open>d[k] = v\<close> for a string key: a key already present keeps its position, a new key
  goes to the end.
\<close>

fun dict_set :: "(string \<times> json) list \<Rightarrow> string \<Rightarrow> json \<Rightarrow> (string \<times> json) list" where
  "dict_set [] k v = [(k, v)]"
| "dict_set ((k', v') # kvs) k v =
     (if k' = k then (k, v) # kvs else (k', v') # dict_set kvs k v)"

fun py_setitem :: "json \<Rightarrow> string \<Rightarrow> json \<Rightarrow> error + json" where
  "py_setitem (JObject kvs) k v = Inr (JObject (dict_set kvs k v))"
| "py_setitem _ k v = Inl TypeError"

text \<open>\<^verbatim>\<open>sub in s\<close> on two strings: \<open>sub\<close> occurs in \<open>s\<close> as a substring.\<close>

fun str_contains :: "string \<Rightarrow> string \<Rightarrow> bool" where
  "str_contains sub [] = (sub = [])"
| "str_contains sub (c # cs) = (take (length sub) (c # cs) = sub \<or> str_contains sub cs)"

text \<open>
  \<^verbatim>\<open>k in d\<close> for a string \<open>k\<close>: a key of a dict, an element of a list, a substring
  of a str; the other values are not containers.
\<close>

fun py_contains :: "json \<Rightarrow> string \<Rightarrow> error + bool" where
  "py_contains (JObject kvs) k = Inr (k \<in> set (map fst kvs))"
| "py_contains (JArray xs) k = Inr (JString k \<in> set xs)"
| "py_contains (JString s) k = Inr (str_contains k s)"
| "py_contains _ k = Inl TypeError"

text \<open>
  \<^verbatim>\<open>for d in v\<close>: the elements of a list, the keys of a dict, the characters of a
  str; the other values are not iterable.
\<close>

fun py_iter :: "json \<Rightarrow> error + json list" where
  "py_iter (JArray xs) = Inr xs"
| "py_iter (JObject kvs) = Inr (map (\<lambda>kv. JString (fst kv)) kvs)"
| "py_iter (JString s) = Inr (map (\<lambda>c. JString [c]) s)"
| "py_iter _ = Inl TypeError"

text \<open>\<^verbatim>\<open>sep.join(xs)\<close>.\<close>

fun py_join :: "string \<Rightarrow> string list \<Rightarrow> string" where
  "py_join sep [] = []"
| "py_join sep [x] = x"
| "py_join sep (x # y # ys) = x @ sep @ py_join sep (y # ys)"

section \<open>The data model\<close>

text \<open>
  The rows of the tables the three operations read, with the fields they use. A nullable
  column is an option. The \<^verbatim>\<open>published\<close> column of the legacy \<^verbatim>\<open>charts\<close> table is
  NULL for a draft, which is what \<^verbatim>\<open>published__isnull=False\<close> tests.
\<close>

datatype datetime = Datetime nat nat nat nat nat nat nat

record chart =
  chart_pk :: int
  chart_name :: string
  chart_config :: string
  chart_updated_at :: datetime
  chart_origin_url :: string
  chart_notes :: string
  chart_slug :: "string option"
  chart_published :: "bool option"
  chart_type :: "string option"

record variable =
  variable_pk :: int
  variable_updated_at :: "datetime option"

record logo =
  logo_name :: string
  logo_svg :: string

record chart_slug_redirect =
  redirect_slug :: string
  redirect_chart_id :: int

text \<open>
  The store: each table is the list of its rows, in the order in which the store returns
  them to a query without an ordering. The declared constraints are the primary key of
  \<^verbatim>\<open>charts\<close> and \<^verbatim>\<open>unique=True\<close> on the slug of a redirect.
\<close>

record store =
  Chart_objects :: "chart list"
  Variable_objects :: "variable list"
  Logo_objects :: "logo list"
  ChartSlugRedirect_objects :: "chart_slug_redirect list"

definition store_ok :: "store \<Rightarrow> bool" where
  "store_ok st \<longleftrightarrow>
     distinct (map chart_pk (Chart_objects st)) \<and>
     distinct (map redirect_slug (ChartSlugRedirect_objects st))"

text \<open>
  The library calls are parameters: \<^verbatim>\<open>json.loads\<close> (\<open>None\<close> when it raises),
  \<^verbatim>\<open>str()\<close> of a datetime and of a bytes object, the standard output of
  \<^verbatim>\<open>subprocess.run(cmd, stdout=subprocess.PIPE, shell=True)\<close>, and
  \<^verbatim>\<open>hashlib.md5\<close> of the UTF-8 encoding of a string followed by \<^verbatim>\<open>hexdigest()\<close>.
\<close>

record env =
  json_loads :: "string \<Rightarrow> json option"
  str_datetime :: "datetime \<Rightarrow> string"
  str_bytes :: "string \<Rightarrow> string"
  subprocess_run_stdout :: "string \<Rightarrow> string"
  md5_hexdigest :: "string \<Rightarrow> string"

text \<open>\<^verbatim>\<open>str(each.updated_at)\<close> where the column is nullable: \<^verbatim>\<open>str(None)\<close> is "None".\<close>

definition str_datetime_opt :: "env \<Rightarrow> datetime option \<Rightarrow> string" where
  "str_datetime_opt env t = (case t of None \<Rightarrow> ''None'' | Some d \<Rightarrow> str_datetime env d)"

text \<open>A nullable text or boolean column as a Python value.\<close>

definition py_str_opt :: "string option \<Rightarrow> json" where
  "py_str_opt s = (case s of None \<Rightarrow> JNull | Some x \<Rightarrow> JString x)"

definition py_bool_opt :: "bool option \<Rightarrow> json" where
  "py_bool_opt b = (case b of None \<Rightarrow> JNull | Some x \<Rightarrow> JBool x)"

subsection \<open>Queries\<close>

text \<open>
  \<^verbatim>\<open>Model.objects.get(...)\<close>: the one row that matches; DoesNotExist when none does,
  MultipleObjectsReturned when several do.
\<close>

fun the_only :: "model \<Rightarrow> 'a list \<Rightarrow> error + 'a" where
  "the_only m [] = Inl (DoesNotExist m)"
| "the_only m [x] = Inr x"
| "the_only m (x # y # ys) = Inl (MultipleObjectsReturned m)"

definition objects_get :: "model \<Rightarrow> ('a \<Rightarrow> bool) \<Rightarrow> 'a list \<Rightarrow> error + 'a" where
  "objects_get m P rows = the_only m (filter P rows)"

text \<open>\<^verbatim>\<open>Variable.objects.filter(pk__in=varids)\<close>, iterated.\<close>

definition Variable_filter_pk_in :: "store \<Rightarrow> int list \<Rightarrow> variable list" where
  "Variable_filter_pk_in st varids =
     filter (\<lambda>v. variable_pk v \<in> set varids) (Variable_objects st)"

text \<open>
  \<^verbatim>\<open>list(Logo.objects.filter(name__in=names))\<close>: the query iterates over \<open>names\<close>
  and keeps the rows whose name is one of its elements. An element that is not a string
  is taken to match no name.
\<close>

definition Logo_filter_name_in :: "store \<Rightarrow> json \<Rightarrow> error + logo list" where
  "Logo_filter_name_in st names =
     (case py_iter names of
        Inl e \<Rightarrow> Inl e
      | Inr xs \<Rightarrow> Inr (filter (\<lambda>l. JString (logo_name l) \<in> set xs) (Logo_objects st)))"

section \<open>The operations of class Chart\<close>

subsection \<open>owid_commit\<close>

definition owid_commit :: "env \<Rightarrow> string" where
  "owid_commit env =
     (let git_commit = subprocess_run_stdout env ''git rev-parse HEAD''
      in str_bytes env git_commit)"

subsection \<open>make_cache_tag\<close>

text \<open>
  The comprehension \<^verbatim>\<open>[int(d['variableId']) for d in dims if 'variableId' in d]\<close> over
  the elements of \<open>dims\<close>, left to right; the first exception ends it.
\<close>

definition varid_of :: "json \<Rightarrow> error + int" where
  "varid_of d =
     (case py_getitem d ''variableId'' of Inl e \<Rightarrow> Inl e | Inr v \<Rightarrow> py_int v)"

fun varids_of :: "json list \<Rightarrow> error + int list" where
  "varids_of [] = Inr []"
| "varids_of (d # ds) =
     (case py_contains d ''variableId'' of
        Inl e \<Rightarrow> Inl e
      | Inr has \<Rightarrow>
          if has then
            (case varid_of d of
               Inl e \<Rightarrow> Inl e
             | Inr n \<Rightarrow> (case varids_of ds of Inl e \<Rightarrow> Inl e | Inr ns \<Rightarrow> Inr (n # ns)))
          else varids_of ds)"

text \<open>Lines 68 to 71: the rows \<open>vartimestamps\<close> that the loop runs over.\<close>

definition vartimestamps :: "env \<Rightarrow> store \<Rightarrow> chart \<Rightarrow> error + variable list" where
  "vartimestamps env st self =
     (case json_loads env (chart_config self) of
        None \<Rightarrow> Inl JSONDecodeError
      | Some config \<Rightarrow>
          (case py_getitem config ''chart-dimensions'' of
             Inl e \<Rightarrow> Inl e
           | Inr dims \<Rightarrow>
               (case py_iter dims of
                  Inl e \<Rightarrow> Inl e
                | Inr ds \<Rightarrow>
                    (case varids_of ds of
                       Inl e \<Rightarrow> Inl e
                     | Inr varids \<Rightarrow> Inr (Variable_filter_pk_in st varids)))))"

definition make_cache_tag :: "env \<Rightarrow> store \<Rightarrow> chart \<Rightarrow> error + string" where
  "make_cache_tag env st self =
     (let variable_cache_tag =
            str_datetime env (chart_updated_at self) @ '' + '' @ owid_commit env
      in case vartimestamps env st self of
           Inl e \<Rightarrow> Inl e
         | Inr rows \<Rightarrow>
             (let updated_at_list =
                    map (\<lambda>each. str_datetime_opt env (variable_updated_at each)) rows
              in Inr (md5_hexdigest env
                        (variable_cache_tag @ py_join '' + '' updated_at_list))))"

subsection \<open>get_config_with_url\<close>

fun py_setitems :: "json \<Rightarrow> (string \<times> json) list \<Rightarrow> error + json" where
  "py_setitems config [] = Inr config"
| "py_setitems config ((k, v) # kvs) =
     (case py_setitem config k v of
        Inl e \<Rightarrow> Inl e
      | Inr config' \<Rightarrow> py_setitems config' kvs)"

text \<open>Lines 89 to 95: the seven assignments from the chart's columns, in order.\<close>

definition chart_fields :: "chart \<Rightarrow> (string \<times> json) list" where
  "chart_fields chart =
     [(''id'', JInt (chart_pk chart)),
      (''title'', JString (chart_name chart)),
      (''chart-type'', py_str_opt (chart_type chart)),
      (''internalNotes'', JString (chart_notes chart)),
      (''slug'', py_str_opt (chart_slug chart)),
      (''data-entry-url'', JString (chart_origin_url chart)),
      (''published'', py_bool_opt (chart_published chart))]"

definition get_config_with_url :: "env \<Rightarrow> store \<Rightarrow> chart \<Rightarrow> error + json" where
  "get_config_with_url env st chart =
     (case json_loads env (chart_config chart) of
        None \<Rightarrow> Inl JSONDecodeError
      | Some config0 \<Rightarrow>
          (case py_setitems config0 (chart_fields chart) of
             Inl e \<Rightarrow> Inl e
           | Inr config \<Rightarrow>
               (case py_getitem config ''logos'' of
                  Inl e \<Rightarrow> Inl e
                | Inr names \<Rightarrow>
                    (case Logo_filter_name_in st names of
                       Inl e \<Rightarrow> Inl e
                     | Inr rows \<Rightarrow>
                         (let logos = map (\<lambda>each. JString (logo_svg each)) rows
                          in py_setitem config ''logosSVG'' (JArray logos))))))"

subsection \<open>find_with_redirects\<close>

text \<open>
  The condition \<^verbatim>\<open>(Q(slug=slug) | Q(pk=intslug)), published__isnull=False\<close>. With
  \<open>intslug = None\<close> the second disjunct is \<^verbatim>\<open>pk IS NULL\<close>, which no row satisfies.
\<close>

definition chart_q :: "string \<Rightarrow> int option \<Rightarrow> chart \<Rightarrow> bool" where
  "chart_q slug intslug c \<longleftrightarrow>
     (chart_slug c = Some slug \<or> Some (chart_pk c) = intslug) \<and> chart_published c \<noteq> None"

text \<open>Line 113, the first lookup.\<close>

definition first_lookup :: "store \<Rightarrow> string \<Rightarrow> error + chart" where
  "first_lookup st slug =
     (let intslug = py_int_str slug
      in objects_get Chart (chart_q slug intslug) (Chart_objects st))"

text \<open>
  The result is \<open>Inr (Some chart)\<close> for a chart and \<open>Inr None\<close> for the value
  \<^verbatim>\<open>False\<close>; an exception that is not caught is \<open>Inl\<close>.
\<close>

definition find_with_redirects :: "store \<Rightarrow> string \<Rightarrow> error + chart option" where
  "find_with_redirects st slug =
     (case first_lookup st slug of
        Inr chart \<Rightarrow> Inr (Some chart)
      | Inl e \<Rightarrow>
          if e = DoesNotExist Chart then
            (case objects_get ChartSlugRedirect (\<lambda>r. redirect_slug r = slug)
                    (ChartSlugRedirect_objects st) of
               Inl e' \<Rightarrow> if e' = DoesNotExist ChartSlugRedirect then Inr None else Inl e'
             | Inr redirect \<Rightarrow>
                 (case objects_get Chart
                         (\<lambda>c. chart_pk c = redirect_chart_id redirect \<and> chart_published c \<noteq> None)
                         (Chart_objects st) of
                    Inl e'' \<Rightarrow> Inl e''
                  | Inr chart \<Rightarrow> Inr (Some chart)))
          else Inl e)"

section \<open>The outcomes and the logo list as the specification words them\<close>

text \<open>
  The resolver's two negative outcomes: the value \<^verbatim>\<open>False\<close> when no redirect row
  exists, and the exception of the second chart lookup when a redirect row points at no
  published chart.
\<close>

abbreviation NotFound :: "error + chart option" where
  "NotFound \<equiv> Inr None"

abbreviation DanglingRedirect :: "error + chart option" where
  "DanglingRedirect \<equiv> Inl (DoesNotExist Chart)"

text \<open>
  The \<^verbatim>\<open>logosSVG\<close> list in the specification's words: for each requested name in
  turn, the payload of the Logo record of that name, and nothing for a name without one.
\<close>

definition spec_logosSVG :: "store \<Rightarrow> string list \<Rightarrow> string list" where
  "spec_logosSVG st names =
     List.map_filter
       (\<lambda>n. map_option logo_svg (find (\<lambda>l. logo_name l = n) (Logo_objects st))) names"

text \<open>The \<^verbatim>\<open>logosSVG\<close> entry of the object that \<open>get_config_with_url\<close> returns.\<close>

definition logosSVG_of :: "env \<Rightarrow> store \<Rightarrow> chart \<Rightarrow> error + json" where
  "logosSVG_of env st chart =
     (case get_config_with_url env st chart of
        Inl e \<Rightarrow> Inl e
      | Inr result \<Rightarrow> py_getitem result ''logosSVG'')"

section \<open>A sample installation\<close>

text \<open>
  Concrete library functions for the examples: \<^verbatim>\<open>str()\<close> of a naive datetime
  (\<^verbatim>\<open>YYYY-MM-DD HH:MM:SS\<close>, with the microseconds when they are not zero) and of a
  bytes object (its \<^verbatim>\<open>repr\<close>).
\<close>

definition digit_char :: "nat \<Rightarrow> char" where
  "digit_char n = ''0123456789abcdef'' ! (n mod 16)"

definition zfill2 :: "nat \<Rightarrow> string" where
  "zfill2 n = [digit_char (n div 10 mod 10), digit_char (n mod 10)]"

definition zfill4 :: "nat \<Rightarrow> string" where
  "zfill4 n = zfill2 (n div 100 mod 100) @ zfill2 (n mod 100)"

definition zfill6 :: "nat \<Rightarrow> string" where
  "zfill6 n = zfill2 (n div 10000 mod 100) @ zfill4 (n mod 10000)"

fun str_naive_datetime :: "datetime \<Rightarrow> string" where
  "str_naive_datetime (Datetime y mo d h mi s us) =
     zfill4 y @ ''-'' @ zfill2 mo @ ''-'' @ zfill2 d @ '' '' @
     zfill2 h @ '':'' @ zfill2 mi @ '':'' @ zfill2 s @
     (if us = 0 then [] else ''.'' @ zfill6 us)"

definition repr_byte :: "char \<Rightarrow> char \<Rightarrow> string" where
  "repr_byte q c =
     (let n = (of_char c :: nat) in
      if c = q \<or> c = CHR 0x5C then [CHR 0x5C, c]
      else if c = CHR 0x09 then [CHR 0x5C, CHR ''t'']
      else if c = CHR 0x0A then [CHR 0x5C, CHR ''n'']
      else if c = CHR 0x0D then [CHR 0x5C, CHR ''r'']
      else if n < 32 \<or> 127 \<le> n then
        [CHR 0x5C, CHR ''x'', digit_char (n div 16), digit_char (n mod 16)]
      else [c])"

definition repr_bytes :: "string \<Rightarrow> string" where
  "repr_bytes b =
     (let q = (if CHR 0x27 \<in> set b \<and> CHR 0x22 \<notin> set b then CHR 0x22 else CHR 0x27)
      in CHR ''b'' # q # concat (map (repr_byte q) b) @ [q])"

text \<open>
  The configuration texts of the examples with the values \<^verbatim>\<open>json.loads\<close> decodes
  from them; the last text of the section, \<open>text_malformed\<close>, is not JSON.
\<close>

definition text_full :: string where
  "text_full = ''{\"chart-dimensions\": [{\"variableId\": \"3\"}, {\"property\": \"x\"}, {\"variableId\": 1}], \"logos\": [\"B\", \"none\", \"A\"], \"id\": 999, \"title\": \"stale\"}''"

definition value_full :: json where
  "value_full =
     JObject
       [(''chart-dimensions'',
           JArray [JObject [(''variableId'', JString ''3'')],
                   JObject [(''property'', JString ''x'')],
                   JObject [(''variableId'', JInt 1)]]),
        (''logos'', JArray [JString ''B'', JString ''none'', JString ''A'']),
        (''id'', JInt 999),
        (''title'', JString ''stale'')]"

definition text_empty :: string where
  "text_empty = ''{}''"

definition text_plain :: string where
  "text_plain = ''{\"chart-dimensions\": [{\"property\": \"x\"}, {\"property\": \"y\"}], \"logos\": []}''"

definition value_plain :: json where
  "value_plain =
     JObject
       [(''chart-dimensions'',
           JArray [JObject [(''property'', JString ''x'')],
                   JObject [(''property'', JString ''y'')]]),
        (''logos'', JArray [])]"

definition text_badid :: string where
  "text_badid = ''{\"chart-dimensions\": [{\"variableId\": 1}, {\"variableId\": \"abc\"}], \"logos\": []}''"

definition value_badid :: json where
  "value_badid =
     JObject
       [(''chart-dimensions'',
           JArray [JObject [(''variableId'', JInt 1)],
                   JObject [(''variableId'', JString ''abc'')]]),
        (''logos'', JArray [])]"

definition text_twice :: string where
  "text_twice = ''{\"chart-dimensions\": [], \"logos\": [\"A\", \"A\"]}''"

definition value_twice :: json where
  "value_twice =
     JObject
       [(''chart-dimensions'', JArray []),
        (''logos'', JArray [JString ''A'', JString ''A''])]"

definition text_same :: string where
  "text_same = ''{\"chart-dimensions\": [{\"variableId\": 1}, {\"variableId\": 3.0}], \"logos\": []}''"

definition value_same :: json where
  "value_same =
     JObject
       [(''chart-dimensions'',
           JArray [JObject [(''variableId'', JInt 1)],
                   JObject [(''variableId'', JFloat (Finite 3))]]),
        (''logos'', JArray [])]"

definition text_malformed :: string where
  "text_malformed = ''{\"chart-dimensions\": [''"

definition sample_loads :: "string \<Rightarrow> json option" where
  "sample_loads =
     map_of
       [(text_full, value_full),
        (text_empty, JObject []),
        (text_plain, value_plain),
        (text_badid, value_badid),
        (text_twice, value_twice),
        (text_same, value_same)]"

text \<open>
  The digest of the examples only marks its argument, so that the string that was hashed
  stays readable; the theorems hold for every digest function.
\<close>

definition sample_digest :: "string \<Rightarrow> string" where
  "sample_digest s = ''md5:'' @ s"

definition sample_env :: env where
  "sample_env =
     \<lparr>json_loads = sample_loads,
      str_datetime = str_naive_datetime,
      str_bytes = repr_bytes,
      subprocess_run_stdout =
        (\<lambda>cmd. if cmd = ''git rev-parse HEAD'' then ''4f2a9c1'' @ [CHR 0x0A] else []),
      md5_hexdigest = sample_digest\<rparr>"

text \<open>The build identifier of the examples: \<^verbatim>\<open>str()\<close> of the bytes git printed.\<close>

definition sample_commit :: string where
  "sample_commit = ''b'' @ [CHR 0x27] @ ''4f2a9c1'' @ [CHR 0x5C, CHR ''n'', CHR 0x27]"

definition mk_chart :: "int \<Rightarrow> string \<Rightarrow> string option \<Rightarrow> bool option \<Rightarrow> chart" where
  "mk_chart i cfg sl pub =
     \<lparr>chart_pk = i, chart_name = ''Life expectancy'', chart_config = cfg,
      chart_updated_at = Datetime 2017 6 1 12 0 0 0,
      chart_origin_url = ''https://example.org/entry'', chart_notes = ''checked'',
      chart_slug = sl, chart_published = pub, chart_type = Some ''LineChart''\<rparr>"

definition chart_full :: chart where
  "chart_full = mk_chart 42 text_full (Some ''life-expectancy'') (Some True)"

definition chart_empty :: chart where
  "chart_empty = mk_chart 7 text_empty (Some ''draft'') None"

definition chart_plain :: chart where
  "chart_plain = mk_chart 8 text_plain (Some ''plain'') (Some True)"

definition chart_badid :: chart where
  "chart_badid = mk_chart 9 text_badid (Some ''badid'') (Some True)"

definition chart_twice :: chart where
  "chart_twice = mk_chart 10 text_twice (Some ''twice'') (Some True)"

definition chart_same :: chart where
  "chart_same = mk_chart 12 text_same (Some ''same'') (Some True)"

definition chart_malformed :: chart where
  "chart_malformed = mk_chart 11 text_malformed None None"

text \<open>The object expected from \<open>get_config_with_url\<close> for \<open>chart_full\<close>.\<close>

definition result_full :: json where
  "result_full =
     JObject
       [(''chart-dimensions'',
           JArray [JObject [(''variableId'', JString ''3'')],
                   JObject [(''property'', JString ''x'')],
                   JObject [(''variableId'', JInt 1)]]),
        (''logos'', JArray [JString ''B'', JString ''none'', JString ''A'']),
        (''id'', JInt 42),
        (''title'', JString ''Life expectancy''),
        (''chart-type'', JString ''LineChart''),
        (''internalNotes'', JString ''checked''),
        (''slug'', JString ''life-expectancy''),
        (''data-entry-url'', JString ''https://example.org/entry''),
        (''published'', JBool True),
        (''logosSVG'', JArray [JString ''<svg>A</svg>'', JString ''<svg>B</svg>''])]"

definition sample_store :: store where
  "sample_store =
     \<lparr>Chart_objects =
        [chart_full, chart_empty, chart_plain, chart_badid, chart_twice, chart_same,
         chart_malformed],
      Variable_objects =
        [\<lparr>variable_pk = 1, variable_updated_at = Some (Datetime 2017 5 1 0 0 0 0)\<rparr>,
         \<lparr>variable_pk = 2, variable_updated_at = Some (Datetime 2017 5 2 8 30 0 250)\<rparr>,
         \<lparr>variable_pk = 3, variable_updated_at = None\<rparr>],
      Logo_objects =
        [\<lparr>logo_name = ''A'', logo_svg = ''<svg>A</svg>''\<rparr>,
         \<lparr>logo_name = ''B'', logo_svg = ''<svg>B</svg>''\<rparr>],
      ChartSlugRedirect_objects =
        [\<lparr>redirect_slug = ''old-slug'', redirect_chart_id = 42\<rparr>,
         \<lparr>redirect_slug = ''broken'', redirect_chart_id = 999\<rparr>]\<rparr>"

section \<open>Dictionaries after assignment\<close>

lemma map_of_dict_set: "map_of (dict_set kvs k v) = (map_of kvs)(k \<mapsto> v)"
  by (induction kvs k v rule: dict_set.induct) auto

lemma py_getitem_setitem:
  "py_setitem c k v = Inr c' \<Longrightarrow>
     py_getitem c' k' = (if k' = k then Inr v else py_getitem c k')"
  by (cases c) (auto simp: map_of_dict_set)

lemma py_setitems_keep:
  "py_setitems c as = Inr r \<Longrightarrow> k \<notin> fst ` set as \<Longrightarrow> py_getitem r k = py_getitem c k"
proof (induction as arbitrary: c)
  case Nil
  then show ?case by simp
next
  case (Cons a as)
  obtain k' v' where a: "a = (k', v')" by (cases a)
  from Cons.prems a obtain c' where c': "py_setitem c k' v' = Inr c'" "py_setitems c' as = Inr r"
    by (auto split: sum.splits)
  from Cons.prems a have "k \<noteq> k'" "k \<notin> fst ` set as" by auto
  with Cons.IH[OF c'(2)] py_getitem_setitem[OF c'(1), of k] show ?case by simp
qed

lemma py_setitems_get:
  "py_setitems c as = Inr r \<Longrightarrow> distinct (map fst as) \<Longrightarrow> (k, v) \<in> set as \<Longrightarrow>
     py_getitem r k = Inr v"
proof (induction as arbitrary: c)
  case Nil
  then show ?case by simp
next
  case (Cons a as)
  obtain k' v' where a: "a = (k', v')" by (cases a)
  from Cons.prems a obtain c' where c': "py_setitem c k' v' = Inr c'" "py_setitems c' as = Inr r"
    by (auto split: sum.splits)
  show ?case
  proof (cases "(k, v) = a")
    case True
    with a Cons.prems(2) have "k \<notin> fst ` set as" by auto
    from py_setitems_keep[OF c'(2) this] py_getitem_setitem[OF c'(1), of k] True a
    show ?thesis by simp
  next
    case False
    with Cons.prems have "(k, v) \<in> set as" "distinct (map fst as)" by auto
    with Cons.IH[OF c'(2)] show ?thesis by simp
  qed
qed

lemma py_setitems_object:
  "\<exists>kvs'. py_setitems (JObject kvs) as = Inr (JObject kvs')"
  by (induction as arbitrary: kvs) auto

lemma py_setitems_not_object:
  "\<forall>kvs. c \<noteq> JObject kvs \<Longrightarrow> as \<noteq> [] \<Longrightarrow> py_setitems c as = Inl TypeError"
  by (cases as; cases c) auto

lemma chart_fields_keys:
  "map fst (chart_fields chart) =
     [''id'', ''title'', ''chart-type'', ''internalNotes'', ''slug'', ''data-entry-url'',
      ''published'']"
  by (simp add: chart_fields_def)

section \<open>Queries that return one row\<close>

lemma the_only_Inr: "the_only m xs = Inr x \<longleftrightarrow> xs = [x]"
  by (cases "(m, xs)" rule: the_only.cases) auto

lemma filter_unique:
  "distinct (map f xs) \<Longrightarrow> x \<in> set xs \<Longrightarrow> P x \<Longrightarrow> filter (\<lambda>y. f y = f x \<and> P y) xs = [x]"
proof (induction xs)
  case Nil
  then show ?case by simp
next
  case (Cons a xs)
  show ?case
  proof (cases "a = x")
    case True
    with Cons.prems have "f x \<notin> f ` set xs" by simp
    have "\<forall>y\<in>set xs. f y \<noteq> f x"
    proof
      fix y
      assume "y \<in> set xs"
      then have "f y \<in> f ` set xs" by (rule imageI)
      with \<open>f x \<notin> f ` set xs\<close> show "f y \<noteq> f x" by auto
    qed
    then have "filter (\<lambda>y. f y = f x \<and> P y) xs = []" by (simp add: filter_empty_conv)
    with True Cons.prems(3) show ?thesis by simp
  next
    case False
    with Cons.prems have "x \<in> set xs" "f a \<noteq> f x" "distinct (map f xs)" by auto
    with Cons.IH Cons.prems(3) show ?thesis by simp
  qed
qed

lemma objects_get_unique:
  assumes "distinct (map f rows)" and "x \<in> set rows" and "P x"
  shows "objects_get m (\<lambda>y. f y = f x \<and> P y) rows = Inr x"
  using filter_unique[of f rows x P] assms by (simp add: objects_get_def)

lemma objects_get_none:
  "\<forall>x\<in>set rows. \<not> P x \<Longrightarrow> objects_get m P rows = Inl (DoesNotExist m)"
  by (simp add: objects_get_def filter_empty_conv[THEN iffD2])

lemma objects_get_Inr:
  "objects_get m P rows = Inr x \<Longrightarrow> x \<in> set rows \<and> P x"
proof -
  assume "objects_get m P rows = Inr x"
  then have "filter P rows = [x]" by (simp add: objects_get_def the_only_Inr)
  then have "x \<in> set (filter P rows)" by simp
  then show ?thesis by simp
qed

section \<open>The sample installation, evaluated\<close>

lemmas sample_texts =
  text_full_def text_empty_def text_plain_def text_badid_def text_twice_def text_same_def
  text_malformed_def

lemmas int_str_defs = py_int_str_def strip_def is_space_def is_digit_def digit_val_def

lemmas sample_charts =
  chart_full_def chart_empty_def chart_plain_def chart_badid_def chart_twice_def
  chart_same_def chart_malformed_def mk_chart_def

lemma sample_loads_full: "json_loads sample_env (chart_config chart_full) = Some value_full"
  by (simp add: sample_env_def sample_loads_def sample_charts sample_texts)

lemma sample_loads_empty: "json_loads sample_env (chart_config chart_empty) = Some (JObject [])"
  by (simp add: sample_env_def sample_loads_def sample_charts sample_texts)


lemma sample_loads_badid: "json_loads sample_env (chart_config chart_badid) = Some value_badid"
  by (simp add: sample_env_def sample_loads_def sample_charts sample_texts)

lemma sample_loads_twice: "json_loads sample_env (chart_config chart_twice) = Some value_twice"
  by (simp add: sample_env_def sample_loads_def sample_charts sample_texts)


lemma sample_loads_malformed: "json_loads sample_env (chart_config chart_malformed) = None"
  by (simp add: sample_env_def sample_loads_def sample_charts sample_texts)

lemma sample_store_ok: "store_ok sample_store"
  by (simp add: store_ok_def sample_store_def sample_charts)

lemma sample_owid_commit: "owid_commit sample_env = sample_commit"
  by (simp add: owid_commit_def sample_env_def sample_commit_def repr_bytes_def repr_byte_def
      digit_char_def Let_def)


lemma get_config_with_url_full:
  "get_config_with_url sample_env sample_store chart_full = Inr result_full"
  by (simp add: get_config_with_url_def sample_loads_full value_full_def chart_fields_def
      Logo_filter_name_in_def py_str_opt_def py_bool_opt_def)
     (simp add: sample_charts sample_store_def result_full_def)

lemma get_config_with_url_empty:
  "get_config_with_url sample_env sample_store chart_empty = Inl KeyError"
  by (simp add: get_config_with_url_def sample_loads_empty chart_fields_def)

lemma logosSVG_of_twice:
  "logosSVG_of sample_env sample_store chart_twice = Inr (JArray [JString ''<svg>A</svg>''])"
  by (simp add: logosSVG_of_def get_config_with_url_def sample_loads_twice value_twice_def
      chart_fields_def Logo_filter_name_in_def)
     (simp add: sample_store_def)



lemma make_cache_tag_full:
  "make_cache_tag sample_env sample_store chart_full =
     Inr (md5_hexdigest sample_env
            (''2017-06-01 12:00:00 + '' @ sample_commit @ ''2017-05-01 00:00:00 + None''))"
  by (simp add: make_cache_tag_def vartimestamps_def sample_loads_full value_full_def
      varid_of_def py_int_str_def strip_def is_space_def is_digit_def digit_val_def
      Variable_filter_pk_in_def sample_owid_commit)
     (simp add: sample_store_def chart_full_def mk_chart_def str_datetime_opt_def
      sample_env_def zfill4_def zfill2_def digit_char_def)



lemma make_cache_tag_badid:
  "make_cache_tag sample_env sample_store chart_badid = Inl ValueError"
  by (simp add: make_cache_tag_def vartimestamps_def sample_loads_badid value_badid_def
      varid_of_def py_int_str_def strip_def is_space_def is_digit_def digit_val_def)

lemma first_lookup_42: "first_lookup sample_store ''42'' = Inr chart_full"
  by (simp add: first_lookup_def objects_get_def chart_q_def int_str_defs)
     (simp add: sample_store_def sample_charts chart_q_def)

lemma first_lookup_slug: "first_lookup sample_store ''life-expectancy'' = Inr chart_full"
  by (simp add: first_lookup_def objects_get_def chart_q_def int_str_defs)
     (simp add: sample_store_def sample_charts chart_q_def)

lemma no_first_match_old_slug:
  "\<forall>c\<in>set (Chart_objects sample_store). \<not> chart_q ''old-slug'' (py_int_str ''old-slug'') c"
  by (simp add: chart_q_def int_str_defs) (simp add: sample_store_def sample_charts chart_q_def)

lemma no_first_match_ghost:
  "\<forall>c\<in>set (Chart_objects sample_store). \<not> chart_q ''ghost'' (py_int_str ''ghost'') c"
  by (simp add: chart_q_def int_str_defs) (simp add: sample_store_def sample_charts chart_q_def)

lemma no_first_match_broken:
  "\<forall>c\<in>set (Chart_objects sample_store). \<not> chart_q ''broken'' (py_int_str ''broken'') c"
  by (simp add: chart_q_def int_str_defs) (simp add: sample_store_def sample_charts chart_q_def)

section \<open>get_config_with_url\<close>

lemma get_config_with_url_Inr:
  assumes "get_config_with_url env st chart = Inr result"
  obtains config0 config names rows where
    "json_loads env (chart_config chart) = Some config0"
    "py_setitems config0 (chart_fields chart) = Inr config"
    "py_getitem config ''logos'' = Inr names"
    "Logo_filter_name_in st names = Inr rows"
    "py_setitem config ''logosSVG'' (JArray (map (\<lambda>each. JString (logo_svg each)) rows)) = Inr result"
  using assms unfolding get_config_with_url_def
  by (auto split: option.splits sum.splits)

lemma get_config_with_url_field:
  assumes "get_config_with_url env st chart = Inr result"
    and "(k, v) \<in> set (chart_fields chart)"
  shows "py_getitem result k = Inr v"
proof -
  from assms(1) obtain config0 config names rows where
    "json_loads env (chart_config chart) = Some config0" and
    set: "py_setitems config0 (chart_fields chart) = Inr config" and
    "py_getitem config ''logos'' = Inr names" and
    "Logo_filter_name_in st names = Inr rows" and
    fin: "py_setitem config ''logosSVG'' (JArray (map (\<lambda>each. JString (logo_svg each)) rows)) = Inr result"
    by (rule get_config_with_url_Inr)
  have "distinct (map fst (chart_fields chart))"
    by (simp add: chart_fields_keys)
  from py_setitems_get[OF set this assms(2)] have "py_getitem config k = Inr v" .
  moreover from assms(2) have "k \<in> set (map fst (chart_fields chart))"
    by force
  then have "k \<noteq> ''logosSVG''"
    by (auto simp: chart_fields_keys)
  ultimately show ?thesis
    using py_getitem_setitem[OF fin, of k] by simp
qed

lemma get_config_with_url_no_logos:
  assumes "json_loads env (chart_config chart) = Some (JObject kvs)"
    and "''logos'' \<notin> fst ` set kvs"
  shows "get_config_with_url env st chart = Inl KeyError"
proof -
  obtain kvs' where set: "py_setitems (JObject kvs) (chart_fields chart) = Inr (JObject kvs')"
    using py_setitems_object by blast
  have "''logos'' \<notin> fst ` set (chart_fields chart)"
    using chart_fields_keys[of chart] by (simp flip: set_map)
  moreover from assms(2) have "map_of kvs ''logos'' = None"
    by (simp add: map_of_eq_None_iff)
  ultimately have "py_getitem (JObject kvs') ''logos'' = Inl KeyError"
    using py_setitems_keep[OF set, of "''logos''"] by simp
  with assms(1) set show ?thesis
    by (simp add: get_config_with_url_def)
qed

lemma get_config_with_url_not_object:
  assumes "json_loads env (chart_config chart) = Some config0"
    and "\<forall>kvs. config0 \<noteq> JObject kvs"
  shows "get_config_with_url env st chart = Inl TypeError"
proof -
  have "chart_fields chart \<noteq> []" by (simp add: chart_fields_def)
  from py_setitems_not_object[OF assms(2) this] assms(1) show ?thesis
    by (simp add: get_config_with_url_def)
qed

lemma get_config_with_url_logos:
  assumes "json_loads env (chart_config chart) = Some (JObject kvs)"
    and "map_of kvs ''logos'' = Some names"
    and "py_iter names = Inr xs"
  shows "\<exists>result. get_config_with_url env st chart = Inr result \<and>
           py_getitem result ''logosSVG'' =
             Inr (JArray (map (\<lambda>l. JString (logo_svg l))
                    (filter (\<lambda>l. JString (logo_name l) \<in> set xs) (Logo_objects st))))"
proof -
  let ?svgs = "JArray (map (\<lambda>l. JString (logo_svg l))
                    (filter (\<lambda>l. JString (logo_name l) \<in> set xs) (Logo_objects st)))"
  obtain kvs' where set: "py_setitems (JObject kvs) (chart_fields chart) = Inr (JObject kvs')"
    using py_setitems_object by blast
  have "''logos'' \<notin> fst ` set (chart_fields chart)"
    using chart_fields_keys[of chart] by (simp flip: set_map)
  from py_setitems_keep[OF set this] assms(2)
  have logos: "py_getitem (JObject kvs') ''logos'' = Inr names" by simp
  from assms(3) have rows: "Logo_filter_name_in st names =
      Inr (filter (\<lambda>l. JString (logo_name l) \<in> set xs) (Logo_objects st))"
    by (simp add: Logo_filter_name_in_def)
  have fin: "py_setitem (JObject kvs') ''logosSVG'' ?svgs =
               Inr (JObject (dict_set kvs' ''logosSVG'' ?svgs))"
    by simp
  from assms(1) set logos rows
  have "get_config_with_url env st chart = Inr (JObject (dict_set kvs' ''logosSVG'' ?svgs))"
    by (simp add: get_config_with_url_def)
  moreover from py_getitem_setitem[OF fin, of "''logosSVG''"]
  have "py_getitem (JObject (dict_set kvs' ''logosSVG'' ?svgs)) ''logosSVG'' = Inr ?svgs"
    by simp
  ultimately show ?thesis by blast
qed

text \<open>
  C2. With a stored configuration that is valid JSON, every object that
  \<open>get_config_with_url\<close> returns maps \<^verbatim>\<open>id\<close>, \<^verbatim>\<open>title\<close>, \<^verbatim>\<open>chart-type\<close>,
  \<^verbatim>\<open>internalNotes\<close>, \<^verbatim>\<open>slug\<close>, \<^verbatim>\<open>data-entry-url\<close> and \<^verbatim>\<open>published\<close> to the
  chart's primary key, name, type, notes, slug, origin URL and published column, whatever
  the stored object held under those keys. An object is returned whenever the
  configuration is a JSON object whose \<^verbatim>\<open>logos\<close> entry can be iterated.
\<close>

theorem get_config_with_url_overrides:
  assumes "json_loads env (chart_config chart) = Some config0"
  shows "(\<forall>result. get_config_with_url env st chart = Inr result \<longrightarrow>
            py_getitem result ''id'' = Inr (JInt (chart_pk chart)) \<and>
            py_getitem result ''title'' = Inr (JString (chart_name chart)) \<and>
            py_getitem result ''chart-type'' = Inr (py_str_opt (chart_type chart)) \<and>
            py_getitem result ''internalNotes'' = Inr (JString (chart_notes chart)) \<and>
            py_getitem result ''slug'' = Inr (py_str_opt (chart_slug chart)) \<and>
            py_getitem result ''data-entry-url'' = Inr (JString (chart_origin_url chart)) \<and>
            py_getitem result ''published'' = Inr (py_bool_opt (chart_published chart))) \<and>
         (\<forall>kvs names xs.
            config0 = JObject kvs \<and> map_of kvs ''logos'' = Some names \<and>
            py_iter names = Inr xs \<longrightarrow>
            (\<exists>result. get_config_with_url env st chart = Inr result))"
proof (intro conjI allI impI)
  fix kvs names xs
  assume h: "config0 = JObject kvs \<and> map_of kvs ''logos'' = Some names \<and> py_iter names = Inr xs"
  with assms have "json_loads env (chart_config chart) = Some (JObject kvs)" by simp
  from get_config_with_url_logos[OF this, of names xs st] h
  show "\<exists>result. get_config_with_url env st chart = Inr result" by blast
qed (rule get_config_with_url_field, assumption, simp add: chart_fields_def)+

theorem get_config_with_url_overrides_witness:
  "json_loads sample_env (chart_config chart_full) = Some value_full \<and>
   get_config_with_url sample_env sample_store chart_full = Inr result_full \<and>
   py_getitem value_full ''id'' = Inr (JInt 999) \<and>
   py_getitem value_full ''title'' = Inr (JString ''stale'') \<and>
   py_getitem result_full ''id'' = Inr (JInt (chart_pk chart_full)) \<and>
   py_getitem result_full ''title'' = Inr (JString (chart_name chart_full)) \<and>
   py_getitem result_full ''chart-type'' = Inr (py_str_opt (chart_type chart_full)) \<and>
   py_getitem result_full ''internalNotes'' = Inr (JString (chart_notes chart_full)) \<and>
   py_getitem result_full ''slug'' = Inr (py_str_opt (chart_slug chart_full)) \<and>
   py_getitem result_full ''data-entry-url'' = Inr (JString (chart_origin_url chart_full)) \<and>
   py_getitem result_full ''published'' = Inr (py_bool_opt (chart_published chart_full)) \<and>
   chart_pk chart_full = 42 \<and> chart_name chart_full = ''Life expectancy''"
proof -
  note inst = get_config_with_url_overrides[OF sample_loads_full, of sample_store]
  have "value_full = JObject
       [(''chart-dimensions'',
           JArray [JObject [(''variableId'', JString ''3'')],
                   JObject [(''property'', JString ''x'')],
                   JObject [(''variableId'', JInt 1)]]),
        (''logos'', JArray [JString ''B'', JString ''none'', JString ''A'']),
        (''id'', JInt 999),
        (''title'', JString ''stale'')] \<and>
     map_of [(''chart-dimensions'',
           JArray [JObject [(''variableId'', JString ''3'')],
                   JObject [(''property'', JString ''x'')],
                   JObject [(''variableId'', JInt 1)]]),
        (''logos'', JArray [JString ''B'', JString ''none'', JString ''A'']),
        (''id'', JInt 999),
        (''title'', JString ''stale'')] ''logos'' =
       Some (JArray [JString ''B'', JString ''none'', JString ''A'']) \<and>
     py_iter (JArray [JString ''B'', JString ''none'', JString ''A'']) =
       Inr [JString ''B'', JString ''none'', JString ''A'']"
    by (simp add: value_full_def)
  with inst obtain result where
    res: "get_config_with_url sample_env sample_store chart_full = Inr result"
    by blast
  with get_config_with_url_full have "result = result_full" by simp
  with inst res have fields:
    "py_getitem result_full ''id'' = Inr (JInt (chart_pk chart_full)) \<and>
     py_getitem result_full ''title'' = Inr (JString (chart_name chart_full)) \<and>
     py_getitem result_full ''chart-type'' = Inr (py_str_opt (chart_type chart_full)) \<and>
     py_getitem result_full ''internalNotes'' = Inr (JString (chart_notes chart_full)) \<and>
     py_getitem result_full ''slug'' = Inr (py_str_opt (chart_slug chart_full)) \<and>
     py_getitem result_full ''data-entry-url'' = Inr (JString (chart_origin_url chart_full)) \<and>
     py_getitem result_full ''published'' = Inr (py_bool_opt (chart_published chart_full))"
    by blast
  have "py_getitem value_full ''id'' = Inr (JInt 999)"
    "py_getitem value_full ''title'' = Inr (JString ''stale'')"
    by (simp_all add: value_full_def)
  moreover have "chart_pk chart_full = 42" "chart_name chart_full = ''Life expectancy''"
    by (simp_all add: chart_full_def mk_chart_def)
  ultimately show ?thesis
    using fields sample_loads_full get_config_with_url_full by simp
qed

text \<open>
  The claim C7 as stated fails on the chart whose configuration is the empty object: the
  text is valid JSON, has no \<^verbatim>\<open>logos\<close> key, and the call ends with KeyError.
\<close>

theorem absent_logos_counterexample:
  "json_loads sample_env (chart_config chart_empty) = Some (JObject []) \<and>
   py_contains (JObject []) ''logos'' = Inr False \<and>
   get_config_with_url sample_env sample_store chart_empty = Inl KeyError"
  using sample_loads_empty get_config_with_url_empty by simp

text \<open>
  C7, as the code has it. A configuration that is valid JSON and has no \<^verbatim>\<open>logos\<close> key
  makes \<open>get_config_with_url\<close> fail: \<^verbatim>\<open>config['logos']\<close> raises KeyError on a
  JSON object (and the first assignment raises TypeError on any other JSON value). The
  absent key is not read as an empty list, and no object is returned.
\<close>

theorem get_config_with_url_absent_logos:
  assumes "json_loads env (chart_config chart) = Some config0"
    and "\<forall>kvs. config0 = JObject kvs \<longrightarrow> ''logos'' \<notin> fst ` set kvs"
  shows "get_config_with_url env st chart =
           Inl (case config0 of JObject kvs \<Rightarrow> KeyError | _ \<Rightarrow> TypeError)"
proof (cases "\<exists>kvs. config0 = JObject kvs")
  case True
  then obtain kvs where kvs: "config0 = JObject kvs" by blast
  with assms(2) have "''logos'' \<notin> fst ` set kvs" by simp
  from get_config_with_url_no_logos[OF assms(1)[unfolded kvs] this] kvs
  show ?thesis by simp
next
  case False
  then have no: "\<forall>kvs. config0 \<noteq> JObject kvs" by simp
  from get_config_with_url_not_object[OF assms(1) no] no
  show ?thesis by (cases config0) simp_all
qed

theorem get_config_with_url_absent_logos_witness:
  "json_loads sample_env (chart_config chart_empty) = Some (JObject []) \<and>
   ''logos'' \<notin> fst ` set ([] :: (string \<times> json) list) \<and>
   get_config_with_url sample_env sample_store chart_empty = Inl KeyError"
  using get_config_with_url_absent_logos[OF sample_loads_empty, of sample_store]
    sample_loads_empty by simp

text \<open>
  The claim C9 as stated fails in two ways. Requested in the order B, none, A, the
  payloads come back in the store's order A, B, where the specification's list is B, A.
  Requested twice, the logo A comes back once, where the specification's list has it
  twice.
\<close>

theorem logosSVG_order_counterexample:
  "py_getitem value_full ''logos'' = Inr (JArray (map JString [''B'', ''none'', ''A''])) \<and>
   logosSVG_of sample_env sample_store chart_full =
     Inr (JArray (map JString [''<svg>A</svg>'', ''<svg>B</svg>''])) \<and>
   spec_logosSVG sample_store [''B'', ''none'', ''A''] = [''<svg>B</svg>'', ''<svg>A</svg>''] \<and>
   py_getitem value_twice ''logos'' = Inr (JArray (map JString [''A'', ''A''])) \<and>
   logosSVG_of sample_env sample_store chart_twice =
     Inr (JArray (map JString [''<svg>A</svg>''])) \<and>
   spec_logosSVG sample_store [''A'', ''A''] = [''<svg>A</svg>'', ''<svg>A</svg>'']"
proof -
  have "logosSVG_of sample_env sample_store chart_full =
     Inr (JArray (map JString [''<svg>A</svg>'', ''<svg>B</svg>'']))"
    by (simp add: logosSVG_of_def get_config_with_url_full) (simp add: result_full_def)
  moreover have
    "spec_logosSVG sample_store [''B'', ''none'', ''A''] = [''<svg>B</svg>'', ''<svg>A</svg>'']"
    "spec_logosSVG sample_store [''A'', ''A''] = [''<svg>A</svg>'', ''<svg>A</svg>'']"
    by (simp_all add: spec_logosSVG_def List.map_filter_def sample_store_def)
  moreover have
    "py_getitem value_full ''logos'' = Inr (JArray (map JString [''B'', ''none'', ''A'']))"
    "py_getitem value_twice ''logos'' = Inr (JArray (map JString [''A'', ''A'']))"
    by (simp_all add: value_full_def value_twice_def)
  ultimately show ?thesis
    using logosSVG_of_twice by simp
qed

text \<open>
  C9, as the code has it. When \<^verbatim>\<open>logos\<close> is a list of names, \<^verbatim>\<open>logosSVG\<close> holds the
  payloads of the Logo rows whose name is one of the requested names, one entry for each
  such row, in the order in which the store returns the rows. A name without a row adds
  nothing, and no entry is null.
\<close>

theorem logosSVG_in_store_order:
  assumes "json_loads env (chart_config chart) = Some (JObject kvs)"
    and "map_of kvs ''logos'' = Some (JArray (map JString names))"
  shows "logosSVG_of env st chart =
           Inr (JArray (map (\<lambda>l. JString (logo_svg l))
                  (filter (\<lambda>l. logo_name l \<in> set names) (Logo_objects st))))"
proof -
  have "py_iter (JArray (map JString names)) = Inr (map JString names)" by simp
  from get_config_with_url_logos[OF assms this, of st]
  obtain result where
    "get_config_with_url env st chart = Inr result"
    "py_getitem result ''logosSVG'' =
       Inr (JArray (map (\<lambda>l. JString (logo_svg l))
              (filter (\<lambda>l. JString (logo_name l) \<in> set (map JString names)) (Logo_objects st))))"
    by blast
  moreover have "filter (\<lambda>l. JString (logo_name l) \<in> set (map JString names)) (Logo_objects st) =
                 filter (\<lambda>l. logo_name l \<in> set names) (Logo_objects st)"
    by (rule filter_cong) auto
  ultimately show ?thesis
    by (simp only: logosSVG_of_def sum.case)
qed

theorem logosSVG_in_store_order_witness:
  "json_loads sample_env (chart_config chart_full) = Some value_full \<and>
   py_getitem value_full ''logos'' = Inr (JArray (map JString [''B'', ''none'', ''A''])) \<and>
   logosSVG_of sample_env sample_store chart_full =
     Inr (JArray [JString ''<svg>A</svg>'', JString ''<svg>B</svg>''])"
proof -
  have logos: "py_getitem value_full ''logos'' = Inr (JArray (map JString [''B'', ''none'', ''A'']))"
    by (simp add: value_full_def)
  have "logosSVG_of sample_env sample_store chart_full =
          Inr (JArray (map (\<lambda>l. JString (logo_svg l))
                 (filter (\<lambda>l. logo_name l \<in> set [''B'', ''none'', ''A''])
                    (Logo_objects sample_store))))"
    by (rule logosSVG_in_store_order[OF sample_loads_full[unfolded value_full_def]]) simp
  then have "logosSVG_of sample_env sample_store chart_full =
     Inr (JArray [JString ''<svg>A</svg>'', JString ''<svg>B</svg>''])"
    by (simp add: sample_store_def)
  with logos sample_loads_full show ?thesis by simp
qed

section \<open>make_cache_tag\<close>


lemma varids_of_fails:
  assumes "d \<in> set ds" and "py_contains d ''variableId'' = Inr True"
    and "\<forall>n. varid_of d \<noteq> Inr n"
  shows "\<exists>e. varids_of ds = Inl e"
  using assms(1)
proof (induction ds)
  case Nil
  then show ?case by simp
next
  case (Cons a ds)
  show ?case
  proof (cases "a = d")
    case True
    from assms(3) obtain e where "varid_of d = Inl e"
      by (cases "varid_of d") auto
    with True assms(2) show ?thesis by simp
  next
    case False
    with Cons obtain e where "varids_of ds = Inl e" by auto
    then show ?thesis
      by (auto split: sum.splits)
  qed
qed

lemma varids_of_Inr:
  "varids_of ds = Inr ids \<Longrightarrow>
     map Inr ids = map varid_of (filter (\<lambda>d. py_contains d ''variableId'' = Inr True) ds)"
proof (induction ds arbitrary: ids)
  case Nil
  then show ?case by simp
next
  case (Cons a ds)
  then show ?case
    by (auto split: sum.splits if_splits)
qed



lemma make_cache_tag_Inr:
  assumes "make_cache_tag env st self = Inr tag"
  obtains rows where
    "vartimestamps env st self = Inr rows"
    "tag = md5_hexdigest env
             (str_datetime env (chart_updated_at self) @ '' + '' @ owid_commit env @
              py_join '' + '' (map (\<lambda>v. str_datetime_opt env (variable_updated_at v)) rows))"
  using assms unfolding make_cache_tag_def
  by (auto simp: Let_def split: sum.splits)













text \<open>
  C10. With a valid configuration whose dimensions can be iterated: a dimension that is
  a record with a \<^verbatim>\<open>variableId\<close> whose value \<^verbatim>\<open>int()\<close> rejects makes
  \<open>make_cache_tag\<close> fail, and when the call succeeds the ids it looked up are the
  \<^verbatim>\<open>int()\<close> of the \<^verbatim>\<open>variableId\<close> of every dimension that has the key, in order;
  only the dimensions without the key are left out.
\<close>

theorem variableId_coerced:
  assumes "json_loads env (chart_config self) = Some config"
    and "py_getitem config ''chart-dimensions'' = Inr dims"
    and "py_iter dims = Inr ds"
  shows "(\<forall>d kvs v e. d \<in> set ds \<and> d = JObject kvs \<and> map_of kvs ''variableId'' = Some v \<and>
                       py_int v = Inl e \<longrightarrow>
            (\<exists>e'. make_cache_tag env st self = Inl e')) \<and>
         (\<forall>tag. make_cache_tag env st self = Inr tag \<longrightarrow>
            (\<exists>varids. varids_of ds = Inr varids \<and>
               map Inr varids =
                 map varid_of (filter (\<lambda>d. py_contains d ''variableId'' = Inr True) ds)))"
proof (intro conjI allI impI)
  fix d kvs v e
  assume h: "d \<in> set ds \<and> d = JObject kvs \<and> map_of kvs ''variableId'' = Some v \<and>
             py_int v = Inl e"
  then have "''variableId'' \<in> fst ` set kvs"
    by (metis map_of_eq_None_iff option.distinct(1))
  with h have has: "py_contains d ''variableId'' = Inr True" by simp
  from h have "varid_of d = Inl e" by (simp add: varid_of_def)
  then have "\<forall>n. varid_of d \<noteq> Inr n" by simp
  from varids_of_fails[OF _ has this] h obtain e' where "varids_of ds = Inl e'" by blast
  with assms have "vartimestamps env st self = Inl e'"
    by (simp add: vartimestamps_def)
  then have "make_cache_tag env st self = Inl e'"
    by (simp add: make_cache_tag_def)
  then show "\<exists>e'. make_cache_tag env st self = Inl e'" ..
next
  fix tag
  assume "make_cache_tag env st self = Inr tag"
  then obtain rows where "vartimestamps env st self = Inr rows"
    by (rule make_cache_tag_Inr)
  with assms obtain varids where ids: "varids_of ds = Inr varids"
    by (auto simp: vartimestamps_def split: sum.splits)
  from varids_of_Inr[OF ids] ids
  show "\<exists>varids. varids_of ds = Inr varids \<and>
               map Inr varids =
                 map varid_of (filter (\<lambda>d. py_contains d ''variableId'' = Inr True) ds)"
    by blast
qed

theorem variableId_coerced_witness:
  "json_loads sample_env (chart_config chart_badid) = Some value_badid \<and>
   py_getitem value_badid ''chart-dimensions'' =
     Inr (JArray [JObject [(''variableId'', JInt 1)],
                  JObject [(''variableId'', JString ''abc'')]]) \<and>
   py_int (JString ''abc'') = Inl ValueError \<and>
   make_cache_tag sample_env sample_store chart_badid = Inl ValueError \<and>
   json_loads sample_env (chart_config chart_full) = Some value_full \<and>
   py_getitem value_full ''chart-dimensions'' =
     Inr (JArray [JObject [(''variableId'', JString ''3'')],
                  JObject [(''property'', JString ''x'')],
                  JObject [(''variableId'', JInt 1)]]) \<and>
   varids_of [JObject [(''variableId'', JString ''3'')],
              JObject [(''property'', JString ''x'')],
              JObject [(''variableId'', JInt 1)]] = Inr [3, 1]"
proof -
  let ?bad = "[JObject [(''variableId'', JInt 1)], JObject [(''variableId'', JString ''abc'')]]"
  let ?full = "[JObject [(''variableId'', JString ''3'')], JObject [(''property'', JString ''x'')],
                JObject [(''variableId'', JInt 1)]]"
  have bad: "py_getitem value_badid ''chart-dimensions'' = Inr (JArray ?bad)"
    by (simp add: value_badid_def)
  have full: "py_getitem value_full ''chart-dimensions'' = Inr (JArray ?full)"
    by (simp add: value_full_def)
  have it_bad: "py_iter (JArray ?bad) = Inr ?bad" and it_full: "py_iter (JArray ?full) = Inr ?full"
    by simp_all
  have abc: "py_int (JString ''abc'') = Inl ValueError"
    by (simp add: int_str_defs)
  have "JObject [(''variableId'', JString ''abc'')] \<in> set ?bad \<and>
        JObject [(''variableId'', JString ''abc'')] = JObject [(''variableId'', JString ''abc'')] \<and>
        map_of [(''variableId'', JString ''abc'')] ''variableId'' = Some (JString ''abc'') \<and>
        py_int (JString ''abc'') = Inl ValueError"
    using abc by simp
  with variableId_coerced[OF sample_loads_badid bad it_bad, of sample_store]
  have "\<exists>e'. make_cache_tag sample_env sample_store chart_badid = Inl e'"
    by blast
  with make_cache_tag_badid
  have fails: "make_cache_tag sample_env sample_store chart_badid = Inl ValueError"
    by simp
  from variableId_coerced[OF sample_loads_full full it_full, of sample_store] make_cache_tag_full
  obtain varids where "varids_of ?full = Inr varids"
    by auto
  moreover have "varids_of ?full = Inr [3, 1]"
    by (simp add: varid_of_def int_str_defs)
  ultimately have ids: "varids_of ?full = Inr [3, 1]" by simp
  from sample_loads_badid bad abc fails sample_loads_full full ids show ?thesis
    by simp
qed

section \<open>Malformed configuration\<close>

text \<open>
  C6. When \<^verbatim>\<open>json.loads\<close> rejects the chart's configuration text, both
  \<open>get_config_with_url\<close> and \<open>make_cache_tag\<close> end with that exception
  (JSONDecodeError, the specification's MalformedConfig); the result carries no output.
\<close>

theorem malformed_config_fails:
  assumes "json_loads env (chart_config chart) = None"
  shows "get_config_with_url env st chart = Inl MalformedConfig \<and>
         make_cache_tag env st chart = Inl MalformedConfig"
  using assms by (simp add: get_config_with_url_def make_cache_tag_def vartimestamps_def)

theorem malformed_config_fails_witness:
  "json_loads sample_env (chart_config chart_malformed) = None \<and>
   get_config_with_url sample_env sample_store chart_malformed = Inl MalformedConfig \<and>
   make_cache_tag sample_env sample_store chart_malformed = Inl MalformedConfig"
  using malformed_config_fails[OF sample_loads_malformed, of sample_store]
    sample_loads_malformed by simp

section \<open>find_with_redirects\<close>

lemma first_lookup_none:
  "\<forall>c\<in>set (Chart_objects st). \<not> chart_q ident (py_int_str ident) c \<Longrightarrow>
     first_lookup st ident = Inl (DoesNotExist Chart)"
  by (simp add: first_lookup_def objects_get_none)

lemma redirect_get:
  assumes "store_ok st" and "r \<in> set (ChartSlugRedirect_objects st)"
    and "redirect_slug r = ident"
  shows "objects_get ChartSlugRedirect (\<lambda>r'. redirect_slug r' = ident)
           (ChartSlugRedirect_objects st) = Inr r"
proof -
  from assms(1) have "distinct (map redirect_slug (ChartSlugRedirect_objects st))"
    by (simp add: store_ok_def)
  from objects_get_unique[of redirect_slug _ r "\<lambda>_. True" ChartSlugRedirect] this assms(2,3)
  show ?thesis by simp
qed

text \<open>
  C4. A chart that the first lookup returns is a row of the store with a non-null
  \<^verbatim>\<open>published\<close> column whose slug is the identifier or whose id is the integer the
  identifier parses to; when the identifier is not an integer, the chart matched by its
  slug. That chart is the result of \<open>find_with_redirects\<close>.
\<close>

theorem first_lookup_match:
  assumes "first_lookup st ident = Inr c"
  shows "c \<in> set (Chart_objects st) \<and> chart_published c \<noteq> None \<and>
         (chart_slug c = Some ident \<or> py_int_str ident = Some (chart_pk c)) \<and>
         (py_int_str ident = None \<longrightarrow> chart_slug c = Some ident) \<and>
         find_with_redirects st ident = Inr (Some c)"
proof -
  from assms have "c \<in> set (Chart_objects st) \<and> chart_q ident (py_int_str ident) c"
    by (simp add: first_lookup_def objects_get_Inr)
  moreover from assms have "find_with_redirects st ident = Inr (Some c)"
    by (simp add: find_with_redirects_def)
  ultimately show ?thesis
    by (auto simp: chart_q_def)
qed

theorem first_lookup_match_witness:
  "first_lookup sample_store ''42'' = Inr chart_full \<and>
   py_int_str ''42'' = Some (chart_pk chart_full) \<and>
   chart_published chart_full = Some True \<and>
   find_with_redirects sample_store ''42'' = Inr (Some chart_full) \<and>
   first_lookup sample_store ''life-expectancy'' = Inr chart_full \<and>
   py_int_str ''life-expectancy'' = None \<and>
   chart_slug chart_full = Some ''life-expectancy'' \<and>
   find_with_redirects sample_store ''life-expectancy'' = Inr (Some chart_full)"
proof -
  have "py_int_str ''42'' = Some (chart_pk chart_full)"
    "py_int_str ''life-expectancy'' = None"
    "chart_published chart_full = Some True"
    by (simp_all add: int_str_defs chart_full_def mk_chart_def)
  then show ?thesis
    using first_lookup_match[OF first_lookup_42] first_lookup_match[OF first_lookup_slug]
      first_lookup_42 first_lookup_slug
    by simp
qed

text \<open>
  C5. When no published chart matches the identifier in the first lookup: a redirect row
  for the identifier whose target is the id of a published chart makes
  \<open>find_with_redirects\<close> return that chart, and without a redirect row for the
  identifier it returns \<^verbatim>\<open>False\<close> (NotFound).
\<close>

theorem find_with_redirects_follows:
  assumes "store_ok st"
    and "\<forall>c\<in>set (Chart_objects st). \<not> chart_q ident (py_int_str ident) c"
  shows "(\<forall>r c. r \<in> set (ChartSlugRedirect_objects st) \<and> redirect_slug r = ident \<and>
                c \<in> set (Chart_objects st) \<and> chart_pk c = redirect_chart_id r \<and>
                chart_published c \<noteq> None \<longrightarrow>
                find_with_redirects st ident = Inr (Some c)) \<and>
         ((\<forall>r\<in>set (ChartSlugRedirect_objects st). redirect_slug r \<noteq> ident) \<longrightarrow>
            find_with_redirects st ident = NotFound)"
proof (intro conjI allI impI)
  fix r c
  assume h: "r \<in> set (ChartSlugRedirect_objects st) \<and> redirect_slug r = ident \<and>
             c \<in> set (Chart_objects st) \<and> chart_pk c = redirect_chart_id r \<and>
             chart_published c \<noteq> None"
  from assms(1) have "distinct (map chart_pk (Chart_objects st))"
    by (simp add: store_ok_def)
  from objects_get_unique[of chart_pk _ c "\<lambda>c. chart_published c \<noteq> None" Chart] this h
  have "objects_get Chart (\<lambda>c'. chart_pk c' = redirect_chart_id r \<and> chart_published c' \<noteq> None)
          (Chart_objects st) = Inr c"
    by simp
  with first_lookup_none[OF assms(2)] redirect_get[OF assms(1), of r ident] h
  show "find_with_redirects st ident = Inr (Some c)"
    by (simp add: find_with_redirects_def)
next
  assume "\<forall>r\<in>set (ChartSlugRedirect_objects st). redirect_slug r \<noteq> ident"
  then have "objects_get ChartSlugRedirect (\<lambda>r. redirect_slug r = ident)
               (ChartSlugRedirect_objects st) = Inl (DoesNotExist ChartSlugRedirect)"
    by (rule objects_get_none)
  with first_lookup_none[OF assms(2)]
  show "find_with_redirects st ident = NotFound"
    by (simp add: find_with_redirects_def)
qed

theorem find_with_redirects_follows_witness:
  "store_ok sample_store \<and>
   \<lparr>redirect_slug = ''old-slug'', redirect_chart_id = 42\<rparr>
     \<in> set (ChartSlugRedirect_objects sample_store) \<and>
   chart_full \<in> set (Chart_objects sample_store) \<and>
   chart_pk chart_full = 42 \<and> chart_published chart_full \<noteq> None \<and>
   find_with_redirects sample_store ''old-slug'' = Inr (Some chart_full) \<and>
   find_with_redirects sample_store ''ghost'' = NotFound"
proof -
  let ?r = "\<lparr>redirect_slug = ''old-slug'', redirect_chart_id = 42\<rparr>"
  have facts: "?r \<in> set (ChartSlugRedirect_objects sample_store)"
    "chart_full \<in> set (Chart_objects sample_store)"
    "chart_pk chart_full = 42" "chart_published chart_full \<noteq> None"
    by (simp_all add: sample_store_def chart_full_def mk_chart_def)
  from find_with_redirects_follows[OF sample_store_ok no_first_match_old_slug]
  have "?r \<in> set (ChartSlugRedirect_objects sample_store) \<and> redirect_slug ?r = ''old-slug'' \<and>
        chart_full \<in> set (Chart_objects sample_store) \<and>
        chart_pk chart_full = redirect_chart_id ?r \<and> chart_published chart_full \<noteq> None \<longrightarrow>
        find_with_redirects sample_store ''old-slug'' = Inr (Some chart_full)"
    by blast
  with facts have old: "find_with_redirects sample_store ''old-slug'' = Inr (Some chart_full)"
    by simp
  have "\<forall>r\<in>set (ChartSlugRedirect_objects sample_store). redirect_slug r \<noteq> ''ghost''"
    by (simp add: sample_store_def)
  with find_with_redirects_follows[OF sample_store_ok no_first_match_ghost]
  have ghost: "find_with_redirects sample_store ''ghost'' = NotFound"
    by blast
  from sample_store_ok facts old ghost show ?thesis by simp
qed

text \<open>
  C3. When no published chart matches the identifier in the first lookup, a redirect row
  for the identifier exists, and no published chart has the id the row points at, the
  second chart lookup raises \<^verbatim>\<open>Chart.DoesNotExist\<close>, which is not the value
  \<^verbatim>\<open>False\<close> returned when there is no redirect row.
\<close>

theorem find_with_redirects_dangling:
  assumes "store_ok st"
    and "\<forall>c\<in>set (Chart_objects st). \<not> chart_q ident (py_int_str ident) c"
    and "r \<in> set (ChartSlugRedirect_objects st)" and "redirect_slug r = ident"
    and "\<forall>c\<in>set (Chart_objects st).
            \<not> (chart_pk c = redirect_chart_id r \<and> chart_published c \<noteq> None)"
  shows "find_with_redirects st ident = DanglingRedirect \<and>
         find_with_redirects st ident \<noteq> NotFound"
proof -
  from assms(5)
  have "objects_get Chart (\<lambda>c. chart_pk c = redirect_chart_id r \<and> chart_published c \<noteq> None)
          (Chart_objects st) = Inl (DoesNotExist Chart)"
    by (rule objects_get_none)
  with first_lookup_none[OF assms(2)] redirect_get[OF assms(1,3,4)]
  have "find_with_redirects st ident = DanglingRedirect"
    by (simp add: find_with_redirects_def)
  then show ?thesis by simp
qed

theorem find_with_redirects_dangling_witness:
  "store_ok sample_store \<and>
   \<lparr>redirect_slug = ''broken'', redirect_chart_id = 999\<rparr>
     \<in> set (ChartSlugRedirect_objects sample_store) \<and>
   find_with_redirects sample_store ''broken'' = DanglingRedirect \<and>
   find_with_redirects sample_store ''broken'' \<noteq> NotFound"
proof -
  let ?r = "\<lparr>redirect_slug = ''broken'', redirect_chart_id = 999\<rparr>"
  have r: "?r \<in> set (ChartSlugRedirect_objects sample_store)"
    and slug: "redirect_slug ?r = ''broken''"
    by (simp_all add: sample_store_def)
  have none: "\<forall>c\<in>set (Chart_objects sample_store).
            \<not> (chart_pk c = redirect_chart_id ?r \<and> chart_published c \<noteq> None)"
    by (simp add: sample_store_def sample_charts chart_q_def)
  from find_with_redirects_dangling[OF sample_store_ok no_first_match_broken r slug none]
    sample_store_ok r
  show ?thesis by simp
qed

end
